theory Spec2Isabelle
  imports Main
begin

section \<open>JavaScript values used by the controller client\<close>

text \<open>
  Template literals turn a number into its decimal text. The numbers that reach them
  here are integers (a port, an HTTP status), so \<open>number_to_string\<close> is the decimal
  rendering of an integer. That is what \<^verbatim>\<open>Number.prototype.toString\<close> gives for the safe
  integers, those of absolute value at most \<open>2^53 - 1 = 9007199254740991\<close>; above them
  JavaScript prints the shortest digits that read back as the same double, and from
  \<open>10^21\<close> on the exponent form, which this function does not follow. The properties of
  the port below are stated for safe integers only; an HTTP status is always one.
\<close>

definition digit_char :: "nat \<Rightarrow> char" where
  "digit_char d = ''0123456789'' ! d"

fun nat_to_string :: "nat \<Rightarrow> string" where
  "nat_to_string n =
     (if n < 10 then [digit_char n] else nat_to_string (n div 10) @ [digit_char (n mod 10)])"

definition number_to_string :: "int \<Rightarrow> string" where
  "number_to_string i =
     (if i < 0 then CHR ''-'' # nat_to_string (nat (- i)) else nat_to_string (nat i))"

text \<open>
  The number a string of decimal digits stands for; it is used only to state that
  \<open>nat_to_string\<close> is the decimal rendering.
\<close>

definition decimal_value :: "string \<Rightarrow> nat" where
  "decimal_value ds = foldl (\<lambda>acc c. 10 * acc + (of_char c - 48)) 0 ds"

text \<open>
  The decimal numeral of a natural number, said without the rendering function: a
  non-empty string of the characters 0 to 9, with no leading zero unless it is "0"
  itself, whose value is the number.
\<close>

definition is_decimal_of :: "string \<Rightarrow> nat \<Rightarrow> bool" where
  "is_decimal_of ds n =
     (ds \<noteq> [] \<and> list_all (\<lambda>c. c \<in> set ''0123456789'') ds \<and>
      (ds = ''0'' \<or> hd ds \<noteq> CHR ''0'') \<and> decimal_value ds = n)"

text \<open>
  The Result type of \<^verbatim>\<open>types.ts\<close>: \<^verbatim>\<open>{ok: true, value} | {ok: false, error}\<close>,
  built by \<^verbatim>\<open>Ok\<close> and \<^verbatim>\<open>Err\<close>.
\<close>

datatype ('a, 'e) Result = Ok 'a | Err 'e

text \<open>A thrown JavaScript error: the two properties the code reads.\<close>

record js_error =
  err_name :: string
  err_message :: string

text \<open>\<^verbatim>\<open>new Error(msg)\<close>\<close>

definition Error :: "string \<Rightarrow> js_error" where
  "Error msg = \<lparr>err_name = ''Error'', err_message = msg\<rparr>"

text \<open>
  A fetch response. \<open>body\<close> is what reading the body gives (\<^verbatim>\<open>response.text()\<close> or
  \<^verbatim>\<open>response.json()\<close>): the value, or the error the read rejects with.
  \<^verbatim>\<open>response.ok\<close> is, by the Fetch standard, the status lying in 200..299.
\<close>

record 'b Response =
  status :: nat
  statusText :: string
  headers :: "string \<rightharpoonup> string"
  body :: "js_error + 'b"

definition response_ok :: "'b Response \<Rightarrow> bool" where
  "response_ok r = (200 \<le> status r \<and> status r \<le> 299)"

text \<open>A settled fetch promise: resolved with a response, or rejected with an error.\<close>

datatype 'b fetch_outcome = Resolved "'b Response" | Rejected js_error

section \<open>Controller client (lib/controller.ts)\<close>

record PluginConfig =
  controllerName :: string
  controllerNamespace :: string
  controllerPort :: int

text \<open>
  \<^verbatim>\<open>`/api/v1/namespaces/${controllerNamespace}/services/http:${controllerName}:${controllerPort}/proxy${path}`\<close>:
  the template literal is the concatenation of its pieces, in order.
\<close>

definition getControllerProxyURL :: "PluginConfig \<Rightarrow> string \<Rightarrow> string" where
  "getControllerProxyURL config path =
     concat [''/api/v1/namespaces/'', controllerNamespace config,
             ''/services/http:'', controllerName config,
             '':'', number_to_string (controllerPort config),
             ''/proxy'', path]"

text \<open>
  Modelled from the spec: \<^verbatim>\<open>tryCatchAsync\<close> of \<^verbatim>\<open>types.ts\<close>, which is not among the
  sources. The spec (4.1): any exception thrown by the wrapped operation is caught at the
  boundary and converted into the failure variant; a returned value becomes the success
  variant. The wrapped operation is given by what it does: throw (\<open>Inl\<close>) or return
  (\<open>Inr\<close>).
\<close>

definition tryCatchAsync :: "js_error + 'a \<Rightarrow> ('a, js_error) Result" where
  "tryCatchAsync run = (case run of Inl e \<Rightarrow> Err e | Inr v \<Rightarrow> Ok v)"

text \<open>
  Modelled from the spec: the branded type \<^verbatim>\<open>PEMCertificate\<close> of \<^verbatim>\<open>types.ts\<close>, which
  is not among the sources. The spec (3): a distinguished string type wrapping the
  PEM text.
\<close>

datatype PEMCertificate = PEMCertificate string

subsection \<open>Certificate fetch\<close>

text \<open>
  \<^verbatim>\<open>fetchPublicCertificateOnce\<close>: one GET of \<^verbatim>\<open>/v1/cert.pem\<close> through the proxy.
  \<open>fetch\<close> gives the outcome of the request to a URL.
\<close>

definition fetchPublicCertificateOnce ::
  "(string \<Rightarrow> string fetch_outcome) \<Rightarrow> PluginConfig \<Rightarrow> (PEMCertificate, string) Result" where
  "fetchPublicCertificateOnce fetch config =
     (let url = getControllerProxyURL config ''/v1/cert.pem'';
          result = tryCatchAsync
            (case fetch url of
               Rejected e \<Rightarrow> Inl e
             | Resolved response \<Rightarrow>
                 if \<not> response_ok response then
                   Inl (Error (concat [''Failed to fetch certificate: '',
                                       number_to_string (int (status response)), '' '',
                                       statusText response]))
                 else (case body response of
                         Inl e \<Rightarrow> Inl e
                       | Inr text \<Rightarrow> Inr (PEMCertificate text)))
      in case result of
           Err e \<Rightarrow> Err (concat [''Unable to fetch controller certificate: '', err_message e])
         | Ok v \<Rightarrow> Ok v)"

record RetryOptions =
  maxAttempts :: nat
  initialDelayMs :: nat
  maxDelayMs :: nat

text \<open>
  Modelled from the spec: \<^verbatim>\<open>retryWithBackoff\<close> of \<^verbatim>\<open>lib/retry.ts\<close>, which is not among
  the sources. The spec (4.2): attempt the operation; on success return immediately; on
  failure, if attempts remain, sleep for the delay, then retry; the delay starts at
  \<open>initialDelayMs\<close>, doubles each subsequent attempt, is capped at \<open>maxDelayMs\<close> and has
  jitter applied that neither makes it negative nor lets it exceed the cap; after
  \<open>maxAttempts\<close> failed attempts the last failure is the result. The spec names no
  failure of the certificate fetch that must not be retried (4.3: a non-2xx response or
  a transport failure is retryable), so the driver retries on every failure. The first
  attempt is always made.

  \<open>operation k\<close> is the result of the \<open>k\<close>-th invocation (from 1); \<open>jitter k d\<close> is the
  randomly perturbed value of the delay \<open>d\<close> slept after attempt \<open>k\<close>. The run returns the
  result, the number of attempts made and the delays slept.
\<close>

fun retry_from ::
  "(nat \<Rightarrow> ('a, 'e) Result) \<Rightarrow> RetryOptions \<Rightarrow> (nat \<Rightarrow> nat \<Rightarrow> nat) \<Rightarrow> nat \<Rightarrow> nat \<Rightarrow> nat
     \<Rightarrow> ('a, 'e) Result \<times> nat \<times> nat list" where
  "retry_from operation opts jitter attempt delay 0 = (operation attempt, attempt, [])"
| "retry_from operation opts jitter attempt delay (Suc remaining) =
     (case operation attempt of
        Ok v \<Rightarrow> (Ok v, attempt, [])
      | Err e \<Rightarrow>
          (let slept = min (maxDelayMs opts) (jitter attempt delay);
               (res, n, ds) = retry_from operation opts jitter (Suc attempt)
                                 (min (maxDelayMs opts) (2 * delay)) remaining
           in (res, n, slept # ds)))"

definition retryWithBackoff ::
  "(nat \<Rightarrow> ('a, 'e) Result) \<Rightarrow> RetryOptions \<Rightarrow> (nat \<Rightarrow> nat \<Rightarrow> nat)
     \<Rightarrow> ('a, 'e) Result \<times> nat \<times> nat list" where
  "retryWithBackoff operation opts jitter =
     retry_from operation opts jitter 1 (min (maxDelayMs opts) (initialDelayMs opts))
       (maxAttempts opts - 1)"

text \<open>
  \<^verbatim>\<open>fetchPublicCertificate\<close>: the single attempt wrapped in the retry driver.
  \<open>net k\<close> is the network as the \<open>k\<close>-th attempt finds it.
\<close>

definition fetchPublicCertificate ::
  "(nat \<Rightarrow> string \<Rightarrow> string fetch_outcome) \<Rightarrow> (nat \<Rightarrow> nat \<Rightarrow> nat) \<Rightarrow> PluginConfig
     \<Rightarrow> (PEMCertificate, string) Result \<times> nat \<times> nat list" where
  "fetchPublicCertificate net jitter config =
     retryWithBackoff (\<lambda>k. fetchPublicCertificateOnce (net k) config)
       \<lparr>maxAttempts = 3, initialDelayMs = 1000, maxDelayMs = 10000\<rparr> jitter"

subsection \<open>Persisted configuration\<close>

definition config_key :: string where
  "config_key = ''sealed-secrets-plugin-config''"

definition default_config :: PluginConfig where
  "default_config =
     \<lparr>controllerName = ''sealed-secrets-controller'',
      controllerNamespace = ''kube-system'',
      controllerPort = 8080\<rparr>"

text \<open>
  \<^verbatim>\<open>getPluginConfig\<close>. \<open>localStorage\<close> maps keys to stored strings (\<^verbatim>\<open>getItem\<close> gives
  \<^verbatim>\<open>null\<close> for a missing key). \<open>JSON_parse\<close> is \<^verbatim>\<open>JSON.parse\<close> at the type the source
  gives its result: the parsed value, returned unchecked, or the error thrown.
  \<^verbatim>\<open>if (stored)\<close> is false for \<^verbatim>\<open>null\<close> and for the empty string.
\<close>

definition getPluginConfig ::
  "(string \<Rightarrow> js_error + PluginConfig) \<Rightarrow> (string \<rightharpoonup> string) \<Rightarrow> PluginConfig" where
  "getPluginConfig JSON_parse localStorage =
     (case localStorage config_key of
        None \<Rightarrow> default_config
      | Some stored \<Rightarrow>
          if stored \<noteq> [] then
            (case JSON_parse stored of
               Inr parsed \<Rightarrow> parsed
             | Inl e \<Rightarrow> default_config)
          else default_config)"

subsection \<open>Health check\<close>

record ControllerHealthStatus =
  healthy :: bool
  reachable :: bool
  version :: "string option"
  latencyMs :: "nat option"
  error :: "string option"

text \<open>
  What a request does over time: it settles after some milliseconds with an outcome, or
  it never settles.
\<close>

datatype 'b fetch_behaviour = Settles nat "'b fetch_outcome" | Pending

text \<open>
  \<^verbatim>\<open>fetch(url, {signal})\<close> with \<^verbatim>\<open>setTimeout(() => controller.abort(), deadline)\<close>: a
  request that has not settled when the timer fires is aborted, and the fetch promise
  rejects with the \<^verbatim>\<open>AbortError\<close> DOMException (its message is the browser's,
  \<open>abort_message\<close>). The timer is taken to fire exactly at the deadline, and a request
  settling at that very instant to lose against it. The result is the time the promise
  settled and its outcome.
\<close>

definition fetch_with_abort ::
  "nat \<Rightarrow> string \<Rightarrow> 'b fetch_behaviour \<Rightarrow> nat \<times> 'b fetch_outcome" where
  "fetch_with_abort deadline abort_message behaviour =
     (case behaviour of
        Settles t outcome \<Rightarrow>
          if t < deadline then (t, outcome)
          else (deadline, Rejected \<lparr>err_name = ''AbortError'', err_message = abort_message\<rparr>)
      | Pending \<Rightarrow>
          (deadline, Rejected \<lparr>err_name = ''AbortError'', err_message = abort_message\<rparr>))"

text \<open>
  \<^verbatim>\<open>checkControllerHealth\<close>. \<open>latencyMs\<close> is \<^verbatim>\<open>Date.now() - startTime\<close>, the time the
  fetch promise took to settle. \<^verbatim>\<open>headers.get(..) || undefined\<close> drops a missing and an
  empty header; \<^verbatim>\<open>else if (error.message)\<close> is false for an empty message.
\<close>

definition checkControllerHealth ::
  "(string \<Rightarrow> 'b fetch_behaviour) \<Rightarrow> string \<Rightarrow> PluginConfig
     \<Rightarrow> (ControllerHealthStatus, string) Result" where
  "checkControllerHealth net abort_message config =
     (let url = getControllerProxyURL config ''/healthz'';
          (elapsed, outcome) = fetch_with_abort 5000 abort_message (net url)
      in case outcome of
           Resolved response \<Rightarrow>
             if \<not> response_ok response then
               Ok \<lparr>healthy = False, reachable = True, version = None,
                   latencyMs = Some elapsed,
                   error = Some (concat [''HTTP '', number_to_string (int (status response)),
                                         '': '', statusText response])\<rparr>
             else
               Ok \<lparr>healthy = True, reachable = True,
                   version = (case headers response ''X-Controller-Version'' of
                                None \<Rightarrow> None
                              | Some v \<Rightarrow> if v \<noteq> [] then Some v else None),
                   latencyMs = Some elapsed,
                   error = None\<rparr>
         | Rejected e \<Rightarrow>
             Ok \<lparr>healthy = False, reachable = False, version = None,
                 latencyMs = Some elapsed,
                 error = Some (if err_name e = ''AbortError''
                               then ''Request timed out after 5 seconds''
                               else if err_message e \<noteq> [] then err_message e
                               else ''Controller unreachable'')\<rparr>)"

section \<open>SealedSecret resource (lib/SealedSecretCRD.ts)\<close>

datatype SealedSecretScope = Strict | NamespaceWide | ClusterWide

text \<open>The scope as the string the getter returns.\<close>

fun scope_name :: "SealedSecretScope \<Rightarrow> string" where
  "scope_name Strict = ''strict''"
| "scope_name NamespaceWide = ''namespace-wide''"
| "scope_name ClusterWide = ''cluster-wide''"

text \<open>\<^verbatim>\<open>metadata.annotations\<close> may be absent; when present it maps keys to strings.\<close>

record KubeMetadata =
  meta_name :: string
  meta_namespace :: string
  annotations :: "(string \<rightharpoonup> string) option"

text \<open>\<^verbatim>\<open>(this.metadata.annotations || {})[key]\<close>\<close>

definition annotation_value :: "KubeMetadata \<Rightarrow> string \<Rightarrow> string option" where
  "annotation_value metadata key =
     (case annotations metadata of None \<Rightarrow> None | Some a \<Rightarrow> a key)"

text \<open>
  \<^verbatim>\<open>get scope()\<close>: the two comparisons with \<^verbatim>\<open>'true'\<close>, in the order of the source.
\<close>

definition scope :: "KubeMetadata \<Rightarrow> SealedSecretScope" where
  "scope metadata =
     (if annotation_value metadata ''sealedsecrets.bitnami.com/cluster-wide'' = Some ''true''
      then ClusterWide
      else if annotation_value metadata ''sealedsecrets.bitnami.com/namespace-wide'' = Some ''true''
      then NamespaceWide
      else Strict)"

subsection \<open>API version detection\<close>

text \<open>
  The part of the CustomResourceDefinition the code reads: \<^verbatim>\<open>crd.spec?.versions?\<close>, each
  version with \<^verbatim>\<open>name\<close>, \<^verbatim>\<open>served\<close> and \<^verbatim>\<open>storage\<close>, and \<^verbatim>\<open>crd.spec.group\<close>.
\<close>

record crd_version =
  ver_name :: string
  served :: bool
  storage :: bool

record crd_spec =
  crd_group :: string
  crd_versions :: "crd_version list option"

record crd =
  spec :: "crd_spec option"

text \<open>
  The static members the resolver touches: the cached version (\<^verbatim>\<open>string | null\<close>), and
  the log of the URLs fetched so far, which makes a network call visible.
\<close>

record resolver_state =
  detectedVersion :: "string option"
  requests :: "string list"

definition DEFAULT_VERSION :: string where
  "DEFAULT_VERSION = ''bitnami.com/v1alpha1''"

definition crd_url :: string where
  "crd_url = ''/apis/apiextensions.k8s.io/v1/customresourcedefinitions/sealedsecrets.bitnami.com''"

definition crd_not_found :: string where
  "crd_not_found = ''SealedSecrets CRD not found. Please install Sealed Secrets on the cluster.''"

text \<open>\<^verbatim>\<open>crd.spec?.versions?.find(pred)\<close>: \<^verbatim>\<open>undefined\<close> when a link is missing.\<close>

definition find_version :: "(crd_version \<Rightarrow> bool) \<Rightarrow> crd \<Rightarrow> crd_version option" where
  "find_version pred c =
     (case spec c of
        None \<Rightarrow> None
      | Some sp \<Rightarrow> (case crd_versions sp of None \<Rightarrow> None | Some vs \<Rightarrow> find pred vs))"

text \<open>\<^verbatim>\<open>`${crd.spec.group}/${v.name}`\<close>: reading \<^verbatim>\<open>group\<close> of a missing spec throws.\<close>

definition group_version :: "crd \<Rightarrow> crd_version \<Rightarrow> js_error + string" where
  "group_version c v =
     (case spec c of
        None \<Rightarrow> Inl \<lparr>err_name = ''TypeError'',
                    err_message = ''Cannot read properties of undefined (reading group)''\<rparr>
      | Some sp \<Rightarrow> Inr (concat [crd_group sp, ''/'', ver_name v]))"

text \<open>
  The callback given to \<^verbatim>\<open>tryCatchAsync\<close> in \<^verbatim>\<open>detectApiVersion\<close>: what it throws or
  returns, and the state it leaves. The fetch is logged; the cache is written on the
  storage and the served path, and not on the default path.
\<close>

definition detect_query ::
  "(string \<Rightarrow> crd fetch_outcome) \<Rightarrow> resolver_state \<Rightarrow> (js_error + string) \<times> resolver_state" where
  "detect_query fetch s =
     (let s1 = s\<lparr>requests := requests s @ [crd_url]\<rparr> in
      case fetch crd_url of
        Rejected e \<Rightarrow> (Inl e, s1)
      | Resolved response \<Rightarrow>
          if \<not> response_ok response then
            (if status response = 404 then (Inl (Error crd_not_found), s1)
             else (Inl (Error (concat [''Failed to fetch CRD: '',
                                       number_to_string (int (status response)), '' '',
                                       statusText response])), s1))
          else
            (case body response of
               Inl e \<Rightarrow> (Inl e, s1)
             | Inr c \<Rightarrow>
                 (case find_version (\<lambda>v. storage v = True) c of
                    Some storageVersion \<Rightarrow>
                      (case group_version c storageVersion of
                         Inl e \<Rightarrow> (Inl e, s1)
                       | Inr gv \<Rightarrow> (Inr gv, s1\<lparr>detectedVersion := Some gv\<rparr>))
                  | None \<Rightarrow>
                      (case find_version (\<lambda>v. served v = True) c of
                         Some servedVersion \<Rightarrow>
                           (case group_version c servedVersion of
                              Inl e \<Rightarrow> (Inl e, s1)
                            | Inr gv \<Rightarrow> (Inr gv, s1\<lparr>detectedVersion := Some gv\<rparr>))
                       | None \<Rightarrow> (Inr DEFAULT_VERSION, s1)))))"

text \<open>\<^verbatim>\<open>if (this.detectedVersion)\<close>: a string is truthy when it is not empty.\<close>

definition cache_hit :: "resolver_state \<Rightarrow> string option" where
  "cache_hit s =
     (case detectedVersion s of
        None \<Rightarrow> None
      | Some v \<Rightarrow> if v \<noteq> [] then Some v else None)"

definition detectApiVersion ::
  "(string \<Rightarrow> crd fetch_outcome) \<Rightarrow> resolver_state \<Rightarrow> (string, string) Result \<times> resolver_state" where
  "detectApiVersion fetch s =
     (case cache_hit s of
        Some cached \<Rightarrow> (Ok cached, s)
      | None \<Rightarrow>
          (let (run, s') = detect_query fetch s in
           case tryCatchAsync run of
             Err e \<Rightarrow> (Err (err_message e), s')
           | Ok v \<Rightarrow> (Ok v, s')))"

definition getDetectedVersion :: "resolver_state \<Rightarrow> string option" where
  "getDetectedVersion s = detectedVersion s"

definition clearVersionCache :: "resolver_state \<Rightarrow> resolver_state" where
  "clearVersionCache s = s\<lparr>detectedVersion := None\<rparr>"

text \<open>
  The class starts with \<^verbatim>\<open>detectedVersion = null\<close>; the only operations on the cache are
  \<^verbatim>\<open>detectApiVersion\<close> (against whatever the network answers at that moment) and
  \<^verbatim>\<open>clearVersionCache\<close>.
\<close>

definition initial_state :: resolver_state where
  "initial_state = \<lparr>detectedVersion = None, requests = []\<rparr>"

datatype resolver_op = Detect "string \<Rightarrow> crd fetch_outcome" | Clear

fun run_ops :: "resolver_op list \<Rightarrow> resolver_state \<Rightarrow> resolver_state" where
  "run_ops [] s = s"
| "run_ops (Detect fetch # ops) s = run_ops ops (snd (detectApiVersion fetch s))"
| "run_ops (Clear # ops) s = run_ops ops (clearVersionCache s)"

text \<open>
  The cache never holds the empty string: what is stored is a group, a slash and a
  version name. This is what makes a cached value truthy in \<^verbatim>\<open>if (this.detectedVersion)\<close>.
\<close>

definition cache_wf :: "resolver_state \<Rightarrow> bool" where
  "cache_wf s = (case detectedVersion s of None \<Rightarrow> True | Some v \<Rightarrow> v \<noteq> [])"

section \<open>Example inputs\<close>

text \<open>
  Concrete responses, errors and stored values at which the properties below are
  instantiated: a healthy and an unhealthy \<^verbatim>\<open>/healthz\<close> answer, the browser's network
  error, a certificate answer, a network that fails twice before it answers, resource
  definitions, and a stored configuration with the value \<^verbatim>\<open>JSON.parse\<close> gives for it.
\<close>

definition failed_to_fetch :: js_error where
  "failed_to_fetch = \<lparr>err_name = ''TypeError'', err_message = ''Failed to fetch''\<rparr>"

definition healthz_200 :: "unit Response" where
  "healthz_200 = \<lparr>status = 200, statusText = ''OK'',
                  headers = [''X-Controller-Version'' \<mapsto> ''0.24.0''], body = Inr ()\<rparr>"

definition healthz_503 :: "unit Response" where
  "healthz_503 = \<lparr>status = 503, statusText = ''Service Unavailable'',
                  headers = Map.empty, body = Inr ()\<rparr>"

definition cert_pem :: string where
  "cert_pem = ''-----BEGIN CERTIFICATE-----MIIB-----END CERTIFICATE-----''"

definition cert_200 :: "string Response" where
  "cert_200 = \<lparr>status = 200, statusText = ''OK'', headers = Map.empty, body = Inr cert_pem\<rparr>"

definition cert_503 :: "string Response" where
  "cert_503 = \<lparr>status = 503, statusText = ''Service Unavailable'',
               headers = Map.empty, body = Inr []\<rparr>"

definition flaky_net :: "nat \<Rightarrow> string \<Rightarrow> string fetch_outcome" where
  "flaky_net k url =
     (if k = 1 then Resolved cert_503
      else if k = 2 then Rejected failed_to_fetch
      else Resolved cert_200)"

definition crd_with :: "crd_version list \<Rightarrow> crd Response" where
  "crd_with vs = \<lparr>status = 200, statusText = ''OK'', headers = Map.empty,
                  body = Inr \<lparr>spec = Some \<lparr>crd_group = ''bitnami.com'',
                                            crd_versions = Some vs\<rparr>\<rparr>\<rparr>"

definition crd_status :: "nat \<Rightarrow> string \<Rightarrow> crd Response" where
  "crd_status code text = \<lparr>status = code, statusText = text, headers = Map.empty,
                           body = Inl \<lparr>err_name = ''SyntaxError'',
                                       err_message = ''Unexpected token''\<rparr>\<rparr>"

definition stored_config :: string where
  \<open>stored_config =
     ''{"controllerName":"ss","controllerNamespace":"sealed","controllerPort":9090}''\<close>

definition parse_stored :: "string \<Rightarrow> js_error + PluginConfig" where
  "parse_stored text =
     (if text = stored_config
      then Inr \<lparr>controllerName = ''ss'', controllerNamespace = ''sealed'', controllerPort = 9090\<rparr>
      else Inl \<lparr>err_name = ''SyntaxError'', err_message = ''Unexpected token''\<rparr>)"

definition serves_v1alpha1 :: "string \<Rightarrow> crd fetch_outcome" where
  "serves_v1alpha1 url =
     Resolved (crd_with [\<lparr>ver_name = ''v1alpha1'', served = True, storage = True\<rparr>])"

definition serves_unflagged :: "string \<Rightarrow> crd fetch_outcome" where
  "serves_unflagged url =
     Resolved (crd_with [\<lparr>ver_name = ''v1alpha1'', served = False, storage = False\<rparr>])"

definition network_down :: "string \<Rightarrow> crd fetch_outcome" where
  "network_down url = Rejected failed_to_fetch"

section \<open>Properties\<close>

subsection \<open>Rendering of numbers\<close>

lemma nat_to_string_examples:
  "nat_to_string 0 = ''0''" "nat_to_string 404 = ''404''" "nat_to_string 8080 = ''8080''"
  by (simp_all add: digit_char_def)

lemma number_to_string_examples:
  "number_to_string 8080 = ''8080''" "number_to_string (- 17) = ''-17''"
  by (simp_all add: number_to_string_def digit_char_def)

lemma nat_to_string_not_empty: "nat_to_string n \<noteq> []"
  by (subst nat_to_string.simps) simp

lemma digit_char_code: "d < 10 \<Longrightarrow> of_char (digit_char d) = (48 + d :: nat)"
proof -
  assume "d < 10"
  then have "d \<in> {0, 1, 2, 3, 4, 5, 6, 7, 8, 9}" by auto
  then show ?thesis by (auto simp: digit_char_def)
qed

text \<open>Reading the rendered digits back gives the number: the rendering is decimal.\<close>

lemma decimal_value_nat_to_string: "decimal_value (nat_to_string n) = n"
proof (induction n rule: nat_to_string.induct)
  case (1 n)
  show ?case
  proof (cases "n < 10")
    case True
    then show ?thesis
      by (subst nat_to_string.simps) (simp add: decimal_value_def digit_char_code)
  next
    case False
    with 1 have "decimal_value (nat_to_string (n div 10)) = n div 10" by simp
    with False show ?thesis
      by (subst nat_to_string.simps) (simp add: decimal_value_def digit_char_code)
  qed
qed

lemma nat_to_string_inj: "nat_to_string m = nat_to_string n \<Longrightarrow> m = n"
  by (metis decimal_value_nat_to_string)

lemma digit_char_is_digit: "d < 10 \<Longrightarrow> digit_char d \<in> set ''0123456789''"
proof -
  assume "d < 10"
  then have "d \<in> {0, 1, 2, 3, 4, 5, 6, 7, 8, 9}" by auto
  then show ?thesis by (auto simp: digit_char_def)
qed

lemma digit_char_zero: "d < 10 \<Longrightarrow> (digit_char d = CHR ''0'') = (d = 0)"
proof -
  assume "d < 10"
  then have "d \<in> {0, 1, 2, 3, 4, 5, 6, 7, 8, 9}" by auto
  then show ?thesis by (auto simp: digit_char_def)
qed

lemma digit_char_of_char:
  "c \<in> set ''0123456789'' \<Longrightarrow> (of_char c :: nat) - 48 < 10 \<and> digit_char (of_char c - 48) = c"
  by (auto simp: digit_char_def)

lemma nat_to_string_digits: "list_all (\<lambda>c. c \<in> set ''0123456789'') (nat_to_string n)"
proof (induction n rule: nat_to_string.induct)
  case (1 n)
  show ?case
  proof (cases "n < 10")
    case True
    with digit_char_is_digit [of n] show ?thesis
      by (subst nat_to_string.simps) simp
  next
    case False
    with 1 have "list_all (\<lambda>c. c \<in> set ''0123456789'') (nat_to_string (n div 10))"
      by (simp del: nat_to_string.simps)
    with False digit_char_is_digit [of "n mod 10"] show ?thesis
      by (subst nat_to_string.simps) (simp del: nat_to_string.simps)
  qed
qed

lemma nat_to_string_no_leading_zero:
  "nat_to_string n = ''0'' \<or> hd (nat_to_string n) \<noteq> CHR ''0''"
proof (induction n rule: nat_to_string.induct)
  case (1 n)
  show ?case
  proof (cases "n < 10")
    case True
    then have "nat_to_string n = [digit_char n]" by (subst nat_to_string.simps) simp
    with True digit_char_zero [of n] show ?thesis by auto
  next
    case False
    then have e: "nat_to_string n = nat_to_string (n div 10) @ [digit_char (n mod 10)]"
      by (subst nat_to_string.simps) simp
    from False 1 have ih: "nat_to_string (n div 10) = ''0'' \<or>
        hd (nat_to_string (n div 10)) \<noteq> CHR ''0''" by (simp del: nat_to_string.simps)
    have "nat_to_string (n div 10) \<noteq> ''0''"
    proof
      assume "nat_to_string (n div 10) = ''0''"
      then have "decimal_value (nat_to_string (n div 10)) = 0"
        by (simp del: nat_to_string.simps add: decimal_value_def)
      with decimal_value_nat_to_string [of "n div 10"] False show False by arith
    qed
    with ih have "hd (nat_to_string (n div 10)) \<noteq> CHR ''0''"
      by (simp del: nat_to_string.simps)
    with e nat_to_string_not_empty [of "n div 10"] show ?thesis
      by (simp del: nat_to_string.simps)
  qed
qed

text \<open>The rendering is the decimal numeral, and the decimal numeral is unique.\<close>

lemma nat_to_string_is_decimal: "is_decimal_of (nat_to_string n) n"
  using nat_to_string_digits [of n] nat_to_string_no_leading_zero [of n]
  by (simp del: nat_to_string.simps
           add: is_decimal_of_def nat_to_string_not_empty decimal_value_nat_to_string)

lemma decimal_value_snoc:
  "decimal_value (ds @ [c]) = 10 * decimal_value ds + (of_char c - 48)"
  by (simp add: decimal_value_def)

lemma decimal_value_pos:
  "ds \<noteq> [] \<Longrightarrow> list_all (\<lambda>c. c \<in> set ''0123456789'') ds \<Longrightarrow> hd ds \<noteq> CHR ''0''
     \<Longrightarrow> 0 < decimal_value ds"
proof (induction ds rule: rev_induct)
  case Nil
  then show ?case by simp
next
  case (snoc c ds)
  show ?case
  proof (cases "ds = []")
    case True
    with snoc.prems show ?thesis
      by (auto simp: decimal_value_def)
  next
    case False
    with snoc have "0 < decimal_value ds" by simp
    then show ?thesis by (simp add: decimal_value_snoc)
  qed
qed

lemma decimal_unique_aux:
  "ds \<noteq> [] \<Longrightarrow> list_all (\<lambda>c. c \<in> set ''0123456789'') ds \<Longrightarrow>
   ds = ''0'' \<or> hd ds \<noteq> CHR ''0'' \<Longrightarrow> nat_to_string (decimal_value ds) = ds"
proof (induction ds rule: rev_induct)
  case Nil
  then show ?case by simp
next
  case (snoc c ds)
  from snoc.prems have c: "c \<in> set ''0123456789''" by simp
  note dc = digit_char_of_char [OF c]
  show ?case
  proof (cases "ds = []")
    case True
    with dc show ?thesis
      by (subst nat_to_string.simps) (simp del: nat_to_string.simps add: decimal_value_def)
  next
    case False
    with snoc.prems have hd: "hd ds \<noteq> CHR ''0''" by auto
    from snoc.prems have dg: "list_all (\<lambda>c. c \<in> set ''0123456789'') ds" by simp
    from decimal_value_pos [OF False dg hd] have pos: "0 < decimal_value ds" .
    from snoc.IH [OF False dg] hd have ih: "nat_to_string (decimal_value ds) = ds"
      by (simp del: nat_to_string.simps)
    have v: "decimal_value (ds @ [c]) = 10 * decimal_value ds + (of_char c - 48)"
      by (rule decimal_value_snoc)
    from pos dc have ge: "\<not> decimal_value (ds @ [c]) < 10" by (simp add: v)
    from dc have dv: "decimal_value (ds @ [c]) div 10 = decimal_value ds"
      and md: "decimal_value (ds @ [c]) mod 10 = of_char c - 48"
      by (simp_all add: v)
    from ge dv md ih dc show ?thesis
      by (subst nat_to_string.simps) (simp del: nat_to_string.simps)
  qed
qed

lemma is_decimal_of_unique: "is_decimal_of ds n \<Longrightarrow> ds = nat_to_string n"
  using decimal_unique_aux [of ds] by (auto simp del: nat_to_string.simps simp: is_decimal_of_def)

subsection \<open>Proxy URL\<close>

text \<open>
  C2. For every configuration whose port is a safe integer and every path,
  \<open>getControllerProxyURL\<close> is a pure function of its two arguments (it takes no network
  and no store) and returns exactly "/api/v1/namespaces/" + controllerNamespace +
  "/services/http:" + controllerName + ":" + controllerPort + "/proxy" + path, where the
  text of the port is its decimal numeral, with a minus sign before it when the port is
  negative.
\<close>

theorem getControllerProxyURL_exact:
  assumes "\<bar>controllerPort config\<bar> \<le> 9007199254740991"
  shows "\<exists>digits. is_decimal_of digits (nat \<bar>controllerPort config\<bar>) \<and>
    getControllerProxyURL config path =
     ''/api/v1/namespaces/'' @ controllerNamespace config @ ''/services/http:'' @
     controllerName config @ '':'' @
     (if controllerPort config < 0 then ''-'' else []) @ digits @
     ''/proxy'' @ path"
proof (intro exI conjI)
  show "is_decimal_of (nat_to_string (nat \<bar>controllerPort config\<bar>)) (nat \<bar>controllerPort config\<bar>)"
    by (rule nat_to_string_is_decimal)
  show "getControllerProxyURL config path =
     ''/api/v1/namespaces/'' @ controllerNamespace config @ ''/services/http:'' @
     controllerName config @ '':'' @
     (if controllerPort config < 0 then ''-'' else []) @
     nat_to_string (nat \<bar>controllerPort config\<bar>) @ ''/proxy'' @ path"
    by (simp del: nat_to_string.simps add: getControllerProxyURL_def number_to_string_def)
qed

text \<open>
  The default configuration with the certificate path, and a negative port: the
  numeral the theorem speaks of can only be "8080", respectively "17".
\<close>

theorem getControllerProxyURL_exact_witness:
  "\<bar>controllerPort default_config\<bar> \<le> 9007199254740991 \<and>
   getControllerProxyURL default_config ''/v1/cert.pem'' =
     ''/api/v1/namespaces/kube-system/services/http:sealed-secrets-controller:8080/proxy/v1/cert.pem'' \<and>
   getControllerProxyURL
     \<lparr>controllerName = ''c'', controllerNamespace = ''n'', controllerPort = - 17\<rparr> ''/healthz'' =
     ''/api/v1/namespaces/n/services/http:c:-17/proxy/healthz''"
proof -
  have b: "\<bar>controllerPort default_config\<bar> \<le> 9007199254740991"
    by (simp add: default_config_def)
  from getControllerProxyURL_exact [OF b, of "''/v1/cert.pem''"]
  obtain digits where d: "is_decimal_of digits 8080"
    and u: "getControllerProxyURL default_config ''/v1/cert.pem'' =
      ''/api/v1/namespaces/kube-system/services/http:sealed-secrets-controller:'' @ digits @
      ''/proxy/v1/cert.pem''"
    by (auto simp: default_config_def)
  from is_decimal_of_unique [OF d] have "digits = ''8080''"
    by (simp add: digit_char_def)
  with u have 1: "getControllerProxyURL default_config ''/v1/cert.pem'' =
     ''/api/v1/namespaces/kube-system/services/http:sealed-secrets-controller:8080/proxy/v1/cert.pem''"
    by simp
  have b2: "\<bar>controllerPort \<lparr>controllerName = ''c'', controllerNamespace = ''n'',
                controllerPort = - 17\<rparr>\<bar> \<le> 9007199254740991"
    by simp
  from getControllerProxyURL_exact [OF b2, of "''/healthz''"]
  obtain digits2 where d2: "is_decimal_of digits2 17"
    and u2: "getControllerProxyURL
       \<lparr>controllerName = ''c'', controllerNamespace = ''n'', controllerPort = - 17\<rparr> ''/healthz'' =
      ''/api/v1/namespaces/n/services/http:c:-'' @ digits2 @ ''/proxy/healthz''"
    by auto
  from is_decimal_of_unique [OF d2] have "digits2 = ''17''"
    by (simp add: digit_char_def)
  with u2 have 2: "getControllerProxyURL
     \<lparr>controllerName = ''c'', controllerNamespace = ''n'', controllerPort = - 17\<rparr> ''/healthz'' =
     ''/api/v1/namespaces/n/services/http:c:-17/proxy/healthz''"
    by simp
  from b 1 2 show ?thesis by simp
qed

lemma getControllerProxyURL_default_cert:
  "getControllerProxyURL default_config ''/v1/cert.pem'' =
     ''/api/v1/namespaces/kube-system/services/http:sealed-secrets-controller:8080/proxy/v1/cert.pem''"
  by (simp add: getControllerProxyURL_def default_config_def number_to_string_def digit_char_def)

subsection \<open>Scope of a SealedSecret\<close>

text \<open>
  C10. The scope getter is total and resolves the annotations by fixed precedence: when
  the cluster-wide annotation is exactly 'true' the scope is 'cluster-wide', whatever the
  namespace-wide annotation says; otherwise, when the namespace-wide annotation is
  exactly 'true' the scope is 'namespace-wide'; in every other case (annotations absent,
  or any other value) the scope is 'strict'.
\<close>

theorem scope_precedence:
  "(annotation_value m ''sealedsecrets.bitnami.com/cluster-wide'' = Some ''true''
      \<longrightarrow> scope_name (scope m) = ''cluster-wide'') \<and>
   (annotation_value m ''sealedsecrets.bitnami.com/cluster-wide'' \<noteq> Some ''true'' \<and>
    annotation_value m ''sealedsecrets.bitnami.com/namespace-wide'' = Some ''true''
      \<longrightarrow> scope_name (scope m) = ''namespace-wide'') \<and>
   (annotation_value m ''sealedsecrets.bitnami.com/cluster-wide'' \<noteq> Some ''true'' \<and>
    annotation_value m ''sealedsecrets.bitnami.com/namespace-wide'' \<noteq> Some ''true''
      \<longrightarrow> scope_name (scope m) = ''strict'')"
  by (simp add: scope_def)

text \<open>
  Both annotations 'true': cluster-wide wins. Only namespace-wide 'true': namespace-wide.
  No annotations at all, and a cluster-wide annotation spelled 'True': strict.
\<close>

theorem scope_precedence_witness:
  "annotation_value
     \<lparr>meta_name = ''db'', meta_namespace = ''prod'',
      annotations = Some [''sealedsecrets.bitnami.com/cluster-wide'' \<mapsto> ''true'',
                          ''sealedsecrets.bitnami.com/namespace-wide'' \<mapsto> ''true'']\<rparr>
     ''sealedsecrets.bitnami.com/namespace-wide'' = Some ''true'' \<and>
   scope_name (scope
     \<lparr>meta_name = ''db'', meta_namespace = ''prod'',
      annotations = Some [''sealedsecrets.bitnami.com/cluster-wide'' \<mapsto> ''true'',
                          ''sealedsecrets.bitnami.com/namespace-wide'' \<mapsto> ''true'']\<rparr>)
     = ''cluster-wide'' \<and>
   scope_name (scope
     \<lparr>meta_name = ''db'', meta_namespace = ''prod'',
      annotations = Some [''sealedsecrets.bitnami.com/namespace-wide'' \<mapsto> ''true'']\<rparr>)
     = ''namespace-wide'' \<and>
   scope_name (scope \<lparr>meta_name = ''db'', meta_namespace = ''prod'', annotations = None\<rparr>)
     = ''strict'' \<and>
   scope_name (scope
     \<lparr>meta_name = ''db'', meta_namespace = ''prod'',
      annotations = Some [''sealedsecrets.bitnami.com/cluster-wide'' \<mapsto> ''True'']\<rparr>)
     = ''strict''"
  using
    scope_precedence [of "\<lparr>meta_name = ''db'', meta_namespace = ''prod'',
      annotations = Some [''sealedsecrets.bitnami.com/cluster-wide'' \<mapsto> ''true'',
                          ''sealedsecrets.bitnami.com/namespace-wide'' \<mapsto> ''true'']\<rparr>"]
    scope_precedence [of "\<lparr>meta_name = ''db'', meta_namespace = ''prod'',
      annotations = Some [''sealedsecrets.bitnami.com/namespace-wide'' \<mapsto> ''true'']\<rparr>"]
    scope_precedence [of "\<lparr>meta_name = ''db'', meta_namespace = ''prod'', annotations = None\<rparr>"]
    scope_precedence [of "\<lparr>meta_name = ''db'', meta_namespace = ''prod'',
      annotations = Some [''sealedsecrets.bitnami.com/cluster-wide'' \<mapsto> ''True'']\<rparr>"]
  by (simp add: annotation_value_def)

subsection \<open>Health check\<close>

text \<open>
  C3. For every configuration and every behaviour of the request (a 2xx response, a
  non-2xx response, a rejected fetch, a request still pending when the 5 second timer
  fires), \<open>checkControllerHealth\<close> returns the success variant \<open>Ok status\<close>; it never
  returns the \<open>Err\<close> variant.
\<close>

theorem checkControllerHealth_never_Err:
  "(\<exists>st. checkControllerHealth net abort_message config = Ok st) \<and>
   (\<forall>msg. checkControllerHealth net abort_message config \<noteq> Err msg)"
  by (auto simp: checkControllerHealth_def Let_def split: prod.splits fetch_outcome.splits)

text \<open>
  C4. The probe is classified into three outcomes. A 2xx response within the deadline:
  healthy and reachable, with the latency and the version taken from the
  X-Controller-Version header when it is present and not empty. A non-2xx response:
  reachable and not healthy, the error "HTTP <status>: <status text>". A rejected fetch
  or the 5000 ms deadline firing: neither healthy nor reachable; the deadline case
  carries the fixed message "Request timed out after 5 seconds", any other failure
  carries the exception's own message, or "Controller unreachable" when it has none, so
  the two differ unless the exception itself brings the timed-out text. No run reports
  healthy without reachable.
\<close>

theorem checkControllerHealth_classification:
  "(net (getControllerProxyURL config ''/healthz'') = Settles t (Resolved r) \<and> t < 5000 \<and>
    response_ok r \<longrightarrow>
      checkControllerHealth net abort_message config =
        Ok \<lparr>healthy = True, reachable = True,
            version = (case headers r ''X-Controller-Version'' of
                         None \<Rightarrow> None | Some v \<Rightarrow> if v = [] then None else Some v),
            latencyMs = Some t, error = None\<rparr>) \<and>
   (net (getControllerProxyURL config ''/healthz'') = Settles t (Resolved r) \<and> t < 5000 \<and>
    \<not> response_ok r \<longrightarrow>
      checkControllerHealth net abort_message config =
        Ok \<lparr>healthy = False, reachable = True, version = None, latencyMs = Some t,
            error = Some (''HTTP '' @ number_to_string (int (status r)) @ '': '' @
                          statusText r)\<rparr>) \<and>
   (net (getControllerProxyURL config ''/healthz'') = Settles t (Rejected e) \<and> t < 5000 \<and>
    err_name e \<noteq> ''AbortError'' \<longrightarrow>
      checkControllerHealth net abort_message config =
        Ok \<lparr>healthy = False, reachable = False, version = None, latencyMs = Some t,
            error = Some (if err_message e = [] then ''Controller unreachable''
                          else err_message e)\<rparr>) \<and>
   (net (getControllerProxyURL config ''/healthz'') = Settles t (Rejected e) \<and> t < 5000 \<and>
    err_name e \<noteq> ''AbortError'' \<and>
    err_message e \<noteq> ''Request timed out after 5 seconds'' \<longrightarrow>
      (\<forall>st. checkControllerHealth net abort_message config = Ok st \<longrightarrow>
            error st \<noteq> Some ''Request timed out after 5 seconds'')) \<and>
   (net (getControllerProxyURL config ''/healthz'') = Pending \<or>
    (\<exists>out. net (getControllerProxyURL config ''/healthz'') = Settles t out \<and> 5000 \<le> t) \<longrightarrow>
      checkControllerHealth net abort_message config =
        Ok \<lparr>healthy = False, reachable = False, version = None, latencyMs = Some 5000,
            error = Some ''Request timed out after 5 seconds''\<rparr>) \<and>
   (\<exists>st. checkControllerHealth net abort_message config = Ok st \<and>
         (healthy st \<longrightarrow> reachable st))"
  by (auto simp: checkControllerHealth_def fetch_with_abort_def Let_def
           split: prod.splits fetch_outcome.splits fetch_behaviour.splits option.splits)

text \<open>
  A 200 answer after 42 ms with a version header, a 503 after 17 ms, the browser's
  network error after 3 ms, an answer that comes after 9 seconds, and a request that
  never settles.
\<close>

theorem checkControllerHealth_classification_witness:
  "checkControllerHealth (\<lambda>url. Settles 42 (Resolved healthz_200)) ''aborted'' default_config =
     Ok \<lparr>healthy = True, reachable = True, version = Some ''0.24.0'',
         latencyMs = Some 42, error = None\<rparr> \<and>
   checkControllerHealth (\<lambda>url. Settles 17 (Resolved healthz_503)) ''aborted'' default_config =
     Ok \<lparr>healthy = False, reachable = True, version = None,
         latencyMs = Some 17, error = Some ''HTTP 503: Service Unavailable''\<rparr> \<and>
   checkControllerHealth (\<lambda>url. Settles 3 (Rejected failed_to_fetch) :: unit fetch_behaviour)
       ''aborted'' default_config =
     Ok \<lparr>healthy = False, reachable = False, version = None,
         latencyMs = Some 3, error = Some ''Failed to fetch''\<rparr> \<and>
   checkControllerHealth (\<lambda>url. Settles 9000 (Resolved healthz_200)) ''aborted'' default_config =
     Ok \<lparr>healthy = False, reachable = False, version = None,
         latencyMs = Some 5000, error = Some ''Request timed out after 5 seconds''\<rparr> \<and>
   checkControllerHealth (\<lambda>url. Pending :: unit fetch_behaviour) ''aborted'' default_config =
     Ok \<lparr>healthy = False, reachable = False, version = None,
         latencyMs = Some 5000, error = Some ''Request timed out after 5 seconds''\<rparr>"
proof -
  have ok: "response_ok healthz_200" and nok: "\<not> response_ok healthz_503"
    by (simp_all add: response_ok_def healthz_200_def healthz_503_def)
  have 1: "checkControllerHealth (\<lambda>url. Settles 42 (Resolved healthz_200)) ''aborted''
             default_config =
     Ok \<lparr>healthy = True, reachable = True, version = Some ''0.24.0'',
         latencyMs = Some 42, error = None\<rparr>"
    using ok
      checkControllerHealth_classification
        [where net = "\<lambda>url. Settles 42 (Resolved healthz_200)" and config = default_config
           and t = 42 and r = healthz_200 and abort_message = "''aborted''"]
    by (simp add: healthz_200_def)
  have 2: "checkControllerHealth (\<lambda>url. Settles 17 (Resolved healthz_503)) ''aborted''
             default_config =
     Ok \<lparr>healthy = False, reachable = True, version = None,
         latencyMs = Some 17, error = Some ''HTTP 503: Service Unavailable''\<rparr>"
    using nok
      checkControllerHealth_classification
        [where net = "\<lambda>url. Settles 17 (Resolved healthz_503)" and config = default_config
           and t = 17 and r = healthz_503 and abort_message = "''aborted''"]
    by (simp add: healthz_503_def number_to_string_def digit_char_def)
  have 3: "checkControllerHealth (\<lambda>url. Settles 3 (Rejected failed_to_fetch) :: unit fetch_behaviour)
             ''aborted'' default_config =
     Ok \<lparr>healthy = False, reachable = False, version = None,
         latencyMs = Some 3, error = Some ''Failed to fetch''\<rparr>"
    using checkControllerHealth_classification
        [where net = "\<lambda>url. Settles 3 (Rejected failed_to_fetch) :: unit fetch_behaviour"
           and config = default_config and t = 3 and e = failed_to_fetch
           and abort_message = "''aborted''"]
    by (simp add: failed_to_fetch_def)
  have 4: "checkControllerHealth (\<lambda>url. Settles 9000 (Resolved healthz_200)) ''aborted''
             default_config =
     Ok \<lparr>healthy = False, reachable = False, version = None,
         latencyMs = Some 5000, error = Some ''Request timed out after 5 seconds''\<rparr>"
    using checkControllerHealth_classification
        [where net = "\<lambda>url. Settles 9000 (Resolved healthz_200)" and config = default_config
           and t = 9000 and abort_message = "''aborted''"]
    by simp
  have 5: "checkControllerHealth (\<lambda>url. Pending :: unit fetch_behaviour) ''aborted''
             default_config =
     Ok \<lparr>healthy = False, reachable = False, version = None,
         latencyMs = Some 5000, error = Some ''Request timed out after 5 seconds''\<rparr>"
    using checkControllerHealth_classification
        [where net = "\<lambda>url. Pending :: unit fetch_behaviour" and config = default_config
           and abort_message = "''aborted''"]
    by simp
  from 1 2 3 4 5 show ?thesis by simp
qed

subsection \<open>Persisted configuration\<close>

text \<open>
  C9. \<open>getPluginConfig\<close> returns the parsed stored configuration when the key is present
  and its value parses as JSON; when the key is absent, and when parsing fails, it
  returns exactly the default (sealed-secrets-controller, kube-system, 8080). It has no
  error result: the parse error is caught. \<^verbatim>\<open>JSON.parse\<close> is any parser that rejects the
  empty text, as JSON does.
\<close>

theorem getPluginConfig_fallback:
  assumes "isl (JSON_parse [])"
  shows
  "(localStorage config_key = Some stored \<and> JSON_parse stored = Inr parsed \<longrightarrow>
      getPluginConfig JSON_parse localStorage = parsed) \<and>
   (localStorage config_key = None \<longrightarrow>
      getPluginConfig JSON_parse localStorage = default_config) \<and>
   (localStorage config_key = Some stored \<and> JSON_parse stored = Inl e \<longrightarrow>
      getPluginConfig JSON_parse localStorage = default_config) \<and>
   default_config = \<lparr>controllerName = ''sealed-secrets-controller'',
                     controllerNamespace = ''kube-system'', controllerPort = 8080\<rparr>"
  using assms
  by (auto simp: getPluginConfig_def default_config_def split: option.splits sum.splits)

text \<open>A stored configuration, an empty store, and a stored value that is not JSON.\<close>

theorem getPluginConfig_fallback_witness:
  "isl (parse_stored []) \<and>
   getPluginConfig parse_stored [config_key \<mapsto> stored_config] =
     \<lparr>controllerName = ''ss'', controllerNamespace = ''sealed'', controllerPort = 9090\<rparr> \<and>
   getPluginConfig parse_stored Map.empty = default_config \<and>
   getPluginConfig parse_stored [config_key \<mapsto> ''{oops''] = default_config"
proof -
  have e: "isl (parse_stored [])"
    by (simp add: parse_stored_def stored_config_def)
  have p: "parse_stored stored_config =
      Inr \<lparr>controllerName = ''ss'', controllerNamespace = ''sealed'', controllerPort = 9090\<rparr>"
    by (simp add: parse_stored_def)
  have q: "parse_stored ''{oops'' =
      Inl \<lparr>err_name = ''SyntaxError'', err_message = ''Unexpected token''\<rparr>"
    by (simp add: parse_stored_def stored_config_def)
  from p getPluginConfig_fallback [where JSON_parse = parse_stored
      and localStorage = "[config_key \<mapsto> stored_config]" and stored = stored_config, OF e]
  have 1: "getPluginConfig parse_stored [config_key \<mapsto> stored_config] =
     \<lparr>controllerName = ''ss'', controllerNamespace = ''sealed'', controllerPort = 9090\<rparr>"
    by simp
  from getPluginConfig_fallback [where JSON_parse = parse_stored
      and localStorage = Map.empty, OF e]
  have 2: "getPluginConfig parse_stored Map.empty = default_config"
    by simp
  from q getPluginConfig_fallback [where JSON_parse = parse_stored
      and localStorage = "[config_key \<mapsto> ''{oops'']" and stored = "''{oops''", OF e]
  have 3: "getPluginConfig parse_stored [config_key \<mapsto> ''{oops''] = default_config"
    by simp
  from e 1 2 3 show ?thesis by simp
qed

subsection \<open>API version detection\<close>

lemma number_to_string_int: "number_to_string (int n) = nat_to_string n"
  by (simp add: number_to_string_def)

lemma detect_query_body_ok:
  "fetch crd_url = Resolved r \<Longrightarrow> response_ok r \<Longrightarrow> body r = Inr c \<Longrightarrow>
     \<exists>gv s'. detect_query fetch s = (Inr gv, s')"
  by (simp add: detect_query_def Let_def find_version_def group_version_def
           split: option.splits)

text \<open>
  C7. With nothing cached, a 404 answer to the resource-definition query makes
  \<open>detectApiVersion\<close> fail with the message "SealedSecrets CRD not found. Please install
  Sealed Secrets on the cluster."; every other non-2xx answer makes it fail with
  "Failed to fetch CRD: <status> <status text>", which is never the 404 message. A
  rejected fetch and a body that does not parse make it fail with the exception's own
  message. There is no other failure: a failure message is the 404 message only for a
  404 answer, or when an exception itself brings that text.
\<close>

theorem detectApiVersion_not_found:
  "(cache_hit s = None \<and> fetch crd_url = Resolved r \<and> status r = 404 \<longrightarrow>
      detectApiVersion fetch s =
        (Err ''SealedSecrets CRD not found. Please install Sealed Secrets on the cluster.'',
         s\<lparr>requests := requests s @ [crd_url]\<rparr>)) \<and>
   (cache_hit s = None \<and> fetch crd_url = Resolved r \<and> \<not> response_ok r \<and> status r \<noteq> 404 \<longrightarrow>
      detectApiVersion fetch s =
        (Err (''Failed to fetch CRD: '' @ number_to_string (int (status r)) @ '' '' @
              statusText r),
         s\<lparr>requests := requests s @ [crd_url]\<rparr>)) \<and>
   ''Failed to fetch CRD: '' @ number_to_string (int (status r)) @ '' '' @ statusText r \<noteq>
     ''SealedSecrets CRD not found. Please install Sealed Secrets on the cluster.'' \<and>
   (cache_hit s = None \<and> fetch crd_url = Rejected e \<longrightarrow>
      detectApiVersion fetch s =
        (Err (err_message e), s\<lparr>requests := requests s @ [crd_url]\<rparr>)) \<and>
   (cache_hit s = None \<and> fetch crd_url = Resolved r \<and> response_ok r \<and> body r = Inl e \<longrightarrow>
      detectApiVersion fetch s =
        (Err (err_message e), s\<lparr>requests := requests s @ [crd_url]\<rparr>)) \<and>
   (fst (detectApiVersion fetch s) = Err m \<longrightarrow>
      (\<exists>r'. fetch crd_url = Resolved r' \<and> status r' = 404 \<and>
            m = ''SealedSecrets CRD not found. Please install Sealed Secrets on the cluster.'') \<or>
      (\<exists>r'. fetch crd_url = Resolved r' \<and> \<not> response_ok r' \<and> status r' \<noteq> 404 \<and>
            m = ''Failed to fetch CRD: '' @ number_to_string (int (status r')) @ '' '' @
                statusText r') \<or>
      (\<exists>e'. fetch crd_url = Rejected e' \<and> m = err_message e') \<or>
      (\<exists>r' e'. fetch crd_url = Resolved r' \<and> response_ok r' \<and> body r' = Inl e' \<and>
               m = err_message e'))"
proof -
  have a: "cache_hit s = None \<and> fetch crd_url = Resolved r \<and> status r = 404 \<longrightarrow>
      detectApiVersion fetch s =
        (Err ''SealedSecrets CRD not found. Please install Sealed Secrets on the cluster.'',
         s\<lparr>requests := requests s @ [crd_url]\<rparr>)"
    by (auto simp: detectApiVersion_def detect_query_def tryCatchAsync_def Error_def
                   crd_not_found_def response_ok_def Let_def)
  have b: "cache_hit s = None \<and> fetch crd_url = Resolved r \<and> \<not> response_ok r \<and> status r \<noteq> 404 \<longrightarrow>
      detectApiVersion fetch s =
        (Err (''Failed to fetch CRD: '' @ number_to_string (int (status r)) @ '' '' @
              statusText r),
         s\<lparr>requests := requests s @ [crd_url]\<rparr>)"
    by (auto simp: detectApiVersion_def detect_query_def tryCatchAsync_def Error_def Let_def)
  have c: "''Failed to fetch CRD: '' @ number_to_string (int (status r)) @ '' '' @ statusText r \<noteq>
     ''SealedSecrets CRD not found. Please install Sealed Secrets on the cluster.''"
    by simp
  have d: "cache_hit s = None \<and> fetch crd_url = Rejected e \<longrightarrow>
      detectApiVersion fetch s =
        (Err (err_message e), s\<lparr>requests := requests s @ [crd_url]\<rparr>)"
    by (auto simp: detectApiVersion_def detect_query_def tryCatchAsync_def Let_def)
  have f: "cache_hit s = None \<and> fetch crd_url = Resolved r \<and> response_ok r \<and> body r = Inl e \<longrightarrow>
      detectApiVersion fetch s =
        (Err (err_message e), s\<lparr>requests := requests s @ [crd_url]\<rparr>)"
    by (auto simp: detectApiVersion_def detect_query_def tryCatchAsync_def Let_def)
  have g: "fst (detectApiVersion fetch s) = Err m \<longrightarrow>
      (\<exists>r'. fetch crd_url = Resolved r' \<and> status r' = 404 \<and>
            m = ''SealedSecrets CRD not found. Please install Sealed Secrets on the cluster.'') \<or>
      (\<exists>r'. fetch crd_url = Resolved r' \<and> \<not> response_ok r' \<and> status r' \<noteq> 404 \<and>
            m = ''Failed to fetch CRD: '' @ number_to_string (int (status r')) @ '' '' @
                statusText r') \<or>
      (\<exists>e'. fetch crd_url = Rejected e' \<and> m = err_message e') \<or>
      (\<exists>r' e'. fetch crd_url = Resolved r' \<and> response_ok r' \<and> body r' = Inl e' \<and>
               m = err_message e')"
  proof
    assume err: "fst (detectApiVersion fetch s) = Err m"
    then have miss: "cache_hit s = None"
      by (cases "cache_hit s") (simp_all add: detectApiVersion_def)
    show "(\<exists>r'. fetch crd_url = Resolved r' \<and> status r' = 404 \<and>
            m = ''SealedSecrets CRD not found. Please install Sealed Secrets on the cluster.'') \<or>
      (\<exists>r'. fetch crd_url = Resolved r' \<and> \<not> response_ok r' \<and> status r' \<noteq> 404 \<and>
            m = ''Failed to fetch CRD: '' @ number_to_string (int (status r')) @ '' '' @
                statusText r') \<or>
      (\<exists>e'. fetch crd_url = Rejected e' \<and> m = err_message e') \<or>
      (\<exists>r' e'. fetch crd_url = Resolved r' \<and> response_ok r' \<and> body r' = Inl e' \<and>
               m = err_message e')"
    proof (cases "fetch crd_url")
      case (Rejected e')
      with miss err have "m = err_message e'"
        by (simp add: detectApiVersion_def detect_query_def tryCatchAsync_def Let_def)
      with Rejected show ?thesis by blast
    next
      case (Resolved r')
      show ?thesis
      proof (cases "response_ok r'")
        case False
        show ?thesis
        proof (cases "status r' = 404")
          case True
          with miss err Resolved False
          have "m = ''SealedSecrets CRD not found. Please install Sealed Secrets on the cluster.''"
            by (simp add: detectApiVersion_def detect_query_def tryCatchAsync_def Error_def
                          crd_not_found_def Let_def)
          with Resolved True show ?thesis by blast
        next
          case n404: False
          with miss err Resolved False
          have "m = ''Failed to fetch CRD: '' @ number_to_string (int (status r')) @ '' '' @
                statusText r'"
            by (simp add: detectApiVersion_def detect_query_def tryCatchAsync_def Error_def
                          Let_def)
          with Resolved False n404 show ?thesis by blast
        qed
      next
        case True
        show ?thesis
        proof (cases "body r'")
          case (Inl e')
          with miss err Resolved True have "m = err_message e'"
            by (simp add: detectApiVersion_def detect_query_def tryCatchAsync_def Let_def)
          with Resolved True Inl show ?thesis by blast
        next
          case (Inr c)
          from detect_query_body_ok [where fetch = fetch and s = s, OF Resolved True Inr]
          obtain gv s' where "detect_query fetch s = (Inr gv, s')" by blast
          with miss err show ?thesis
            by (simp add: detectApiVersion_def tryCatchAsync_def)
        qed
      qed
    qed
  qed
  from a b c d f g show ?thesis by blast
qed

text \<open>
  A 404 and a 500 answer, a network that is down, and a 200 answer whose body is not
  JSON, from the initial state.
\<close>

theorem detectApiVersion_not_found_witness:
  "cache_hit initial_state = None \<and>
   fst (detectApiVersion (\<lambda>url. Resolved (crd_status 404 ''Not Found'')) initial_state) =
     Err ''SealedSecrets CRD not found. Please install Sealed Secrets on the cluster.'' \<and>
   fst (detectApiVersion (\<lambda>url. Resolved (crd_status 500 ''Internal Server Error''))
          initial_state) =
     Err ''Failed to fetch CRD: 500 Internal Server Error'' \<and>
   fst (detectApiVersion network_down initial_state) = Err ''Failed to fetch'' \<and>
   fst (detectApiVersion (\<lambda>url. Resolved (crd_status 200 ''OK'')) initial_state) =
     Err ''Unexpected token''"
proof -
  have c: "cache_hit initial_state = None"
    by (simp add: cache_hit_def initial_state_def)
  from c detectApiVersion_not_found
      [where s = initial_state and fetch = "\<lambda>url. Resolved (crd_status 404 ''Not Found'')"
         and r = "crd_status 404 ''Not Found''", THEN conjunct1]
  have 1: "fst (detectApiVersion (\<lambda>url. Resolved (crd_status 404 ''Not Found'')) initial_state) =
     Err ''SealedSecrets CRD not found. Please install Sealed Secrets on the cluster.''"
    by (simp add: crd_status_def)
  from c detectApiVersion_not_found
      [where s = initial_state
         and fetch = "\<lambda>url. Resolved (crd_status 500 ''Internal Server Error'')"
         and r = "crd_status 500 ''Internal Server Error''", THEN conjunct2, THEN conjunct1]
  have 2: "fst (detectApiVersion (\<lambda>url. Resolved (crd_status 500 ''Internal Server Error''))
          initial_state) =
     Err ''Failed to fetch CRD: 500 Internal Server Error''"
    by (simp add: crd_status_def response_ok_def number_to_string_def digit_char_def)
  from c detectApiVersion_not_found
      [where s = initial_state and fetch = network_down and e = failed_to_fetch,
       THEN conjunct2, THEN conjunct2, THEN conjunct2, THEN conjunct1]
  have 3: "fst (detectApiVersion network_down initial_state) = Err ''Failed to fetch''"
    by (simp add: network_down_def failed_to_fetch_def)
  from c detectApiVersion_not_found
      [where s = initial_state and fetch = "\<lambda>url. Resolved (crd_status 200 ''OK'')"
         and r = "crd_status 200 ''OK''"
         and e = "\<lparr>err_name = ''SyntaxError'', err_message = ''Unexpected token''\<rparr>",
       THEN conjunct2, THEN conjunct2, THEN conjunct2, THEN conjunct2, THEN conjunct1]
  have 4: "fst (detectApiVersion (\<lambda>url. Resolved (crd_status 200 ''OK'')) initial_state) =
     Err ''Unexpected token''"
    by (simp add: crd_status_def response_ok_def)
  from c 1 2 3 4 show ?thesis by simp
qed

lemma find_first:
  "(\<forall>u\<in>set pre. \<not> P u) \<Longrightarrow> P v \<Longrightarrow> find P (pre @ v # post) = Some v"
  by (induction pre) auto

lemma find_none: "(\<forall>u\<in>set vs. \<not> P u) \<Longrightarrow> find P vs = None"
  by (induction vs) auto

text \<open>
  C5, as the code has it. With nothing cached and a 2xx answer whose body parses, the
  first version with \<open>storage\<close> true is selected; when no version has \<open>storage\<close> true, the
  first version with \<open>served\<close> true; in both cases the string group/name is written to
  the cache and returned. When neither exists (or the definition has no versions at all)
  the default "bitnami.com/v1alpha1" is returned and the cache is left as it was.
\<close>

theorem detectApiVersion_selection:
  assumes "cache_hit s = None" and "fetch crd_url = Resolved r" and "response_ok r"
    and "body r = Inr c"
  shows
  "(spec c = Some sp \<and> crd_versions sp = Some (pre @ v # post) \<and>
    (\<forall>u\<in>set pre. \<not> storage u) \<and> storage v \<longrightarrow>
      detectApiVersion fetch s =
        (Ok (crd_group sp @ ''/'' @ ver_name v),
         s\<lparr>requests := requests s @ [crd_url],
           detectedVersion := Some (crd_group sp @ ''/'' @ ver_name v)\<rparr>)) \<and>
   (spec c = Some sp \<and> crd_versions sp = Some (pre @ v # post) \<and>
    (\<forall>u\<in>set (pre @ v # post). \<not> storage u) \<and>
    (\<forall>u\<in>set pre. \<not> served u) \<and> served v \<longrightarrow>
      detectApiVersion fetch s =
        (Ok (crd_group sp @ ''/'' @ ver_name v),
         s\<lparr>requests := requests s @ [crd_url],
           detectedVersion := Some (crd_group sp @ ''/'' @ ver_name v)\<rparr>)) \<and>
   ((spec c = None \<or> (spec c = Some sp \<and> crd_versions sp = None) \<or>
     (spec c = Some sp \<and> crd_versions sp = Some vs \<and>
      (\<forall>u\<in>set vs. \<not> storage u \<and> \<not> served u))) \<longrightarrow>
      detectApiVersion fetch s =
        (Ok ''bitnami.com/v1alpha1'', s\<lparr>requests := requests s @ [crd_url]\<rparr>))"
proof (intro conjI impI)
  assume h: "spec c = Some sp \<and> crd_versions sp = Some (pre @ v # post) \<and>
    (\<forall>u\<in>set pre. \<not> storage u) \<and> storage v"
  then have "find (\<lambda>v. storage v = True) (pre @ v # post) = Some v"
    by (intro find_first) auto
  with h assms show "detectApiVersion fetch s =
        (Ok (crd_group sp @ ''/'' @ ver_name v),
         s\<lparr>requests := requests s @ [crd_url],
           detectedVersion := Some (crd_group sp @ ''/'' @ ver_name v)\<rparr>)"
    by (simp add: detectApiVersion_def detect_query_def find_version_def group_version_def
                  tryCatchAsync_def Let_def)
next
  assume h: "spec c = Some sp \<and> crd_versions sp = Some (pre @ v # post) \<and>
    (\<forall>u\<in>set (pre @ v # post). \<not> storage u) \<and>
    (\<forall>u\<in>set pre. \<not> served u) \<and> served v"
  then have 1: "find (\<lambda>v. storage v = True) (pre @ v # post) = None"
    by (intro find_none) auto
  from h have 2: "find (\<lambda>v. served v = True) (pre @ v # post) = Some v"
    by (intro find_first) auto
  from h assms 1 2 show "detectApiVersion fetch s =
        (Ok (crd_group sp @ ''/'' @ ver_name v),
         s\<lparr>requests := requests s @ [crd_url],
           detectedVersion := Some (crd_group sp @ ''/'' @ ver_name v)\<rparr>)"
    by (simp add: detectApiVersion_def detect_query_def find_version_def group_version_def
                  tryCatchAsync_def Let_def)
next
  assume h: "spec c = None \<or> (spec c = Some sp \<and> crd_versions sp = None) \<or>
     (spec c = Some sp \<and> crd_versions sp = Some vs \<and>
      (\<forall>u\<in>set vs. \<not> storage u \<and> \<not> served u))"
  have "find_version (\<lambda>v. storage v = True) c = None \<and>
        find_version (\<lambda>v. served v = True) c = None"
    using h by (auto simp: find_version_def find_None_iff)
  with assms show "detectApiVersion fetch s =
        (Ok ''bitnami.com/v1alpha1'', s\<lparr>requests := requests s @ [crd_url]\<rparr>)"
    by (simp add: detectApiVersion_def detect_query_def tryCatchAsync_def Let_def
                  DEFAULT_VERSION_def)
qed

text \<open>
  The default path returns successfully and caches nothing: a definition whose only
  version is neither served nor stored. A second call therefore queries again.
\<close>

theorem detectApiVersion_default_not_cached:
  "fst (detectApiVersion serves_unflagged initial_state) = Ok ''bitnami.com/v1alpha1'' \<and>
   detectedVersion (snd (detectApiVersion serves_unflagged initial_state)) \<noteq>
     Some ''bitnami.com/v1alpha1'' \<and>
   detectedVersion (snd (detectApiVersion serves_unflagged initial_state)) = None \<and>
   requests (snd (detectApiVersion serves_unflagged
                    (snd (detectApiVersion serves_unflagged initial_state)))) =
     [crd_url, crd_url]"
  by (simp add: detectApiVersion_def detect_query_def cache_hit_def initial_state_def
                serves_unflagged_def crd_with_def response_ok_def find_version_def
                tryCatchAsync_def DEFAULT_VERSION_def Let_def)

text \<open>
  The storage version wins over an earlier served one; without a storage version the
  first served one is taken; without versions the default is returned uncached.
\<close>

theorem detectApiVersion_selection_witness:
  "detectApiVersion
     (\<lambda>url. Resolved (crd_with [\<lparr>ver_name = ''v1beta1'', served = True, storage = False\<rparr>,
                               \<lparr>ver_name = ''v1alpha1'', served = True, storage = True\<rparr>]))
     initial_state =
     (Ok ''bitnami.com/v1alpha1'',
      \<lparr>detectedVersion = Some ''bitnami.com/v1alpha1'', requests = [crd_url]\<rparr>) \<and>
   detectApiVersion
     (\<lambda>url. Resolved (crd_with [\<lparr>ver_name = ''v1old'', served = False, storage = False\<rparr>,
                               \<lparr>ver_name = ''v1beta1'', served = True, storage = False\<rparr>,
                               \<lparr>ver_name = ''v2'', served = True, storage = False\<rparr>]))
     initial_state =
     (Ok ''bitnami.com/v1beta1'',
      \<lparr>detectedVersion = Some ''bitnami.com/v1beta1'', requests = [crd_url]\<rparr>) \<and>
   detectApiVersion (\<lambda>url. Resolved (crd_with [])) initial_state =
     (Ok ''bitnami.com/v1alpha1'', \<lparr>detectedVersion = None, requests = [crd_url]\<rparr>)"
proof -
  have c: "cache_hit initial_state = None"
    by (simp add: cache_hit_def initial_state_def)
  have ok: "\<And>vs. response_ok (crd_with vs)"
    by (simp add: response_ok_def crd_with_def)
  have b: "\<And>vs. body (crd_with vs) =
      Inr \<lparr>spec = Some \<lparr>crd_group = ''bitnami.com'', crd_versions = Some vs\<rparr>\<rparr>"
    by (simp add: crd_with_def)
  have 1: "detectApiVersion
     (\<lambda>url. Resolved (crd_with [\<lparr>ver_name = ''v1beta1'', served = True, storage = False\<rparr>,
                               \<lparr>ver_name = ''v1alpha1'', served = True, storage = True\<rparr>]))
     initial_state =
     (Ok ''bitnami.com/v1alpha1'',
      \<lparr>detectedVersion = Some ''bitnami.com/v1alpha1'', requests = [crd_url]\<rparr>)"
    using detectApiVersion_selection
      [where s = initial_state
         and fetch = "\<lambda>url. Resolved (crd_with
                [\<lparr>ver_name = ''v1beta1'', served = True, storage = False\<rparr>,
                 \<lparr>ver_name = ''v1alpha1'', served = True, storage = True\<rparr>])"
         and sp = "\<lparr>crd_group = ''bitnami.com'', crd_versions = Some
                [\<lparr>ver_name = ''v1beta1'', served = True, storage = False\<rparr>,
                 \<lparr>ver_name = ''v1alpha1'', served = True, storage = True\<rparr>]\<rparr>"
         and pre = "[\<lparr>ver_name = ''v1beta1'', served = True, storage = False\<rparr>]"
         and v = "\<lparr>ver_name = ''v1alpha1'', served = True, storage = True\<rparr>"
         and post = "[]",
       OF c refl ok b]
    by (simp add: initial_state_def)
  have 2: "detectApiVersion
     (\<lambda>url. Resolved (crd_with [\<lparr>ver_name = ''v1old'', served = False, storage = False\<rparr>,
                               \<lparr>ver_name = ''v1beta1'', served = True, storage = False\<rparr>,
                               \<lparr>ver_name = ''v2'', served = True, storage = False\<rparr>]))
     initial_state =
     (Ok ''bitnami.com/v1beta1'',
      \<lparr>detectedVersion = Some ''bitnami.com/v1beta1'', requests = [crd_url]\<rparr>)"
    using detectApiVersion_selection
      [where s = initial_state
         and fetch = "\<lambda>url. Resolved (crd_with
                [\<lparr>ver_name = ''v1old'', served = False, storage = False\<rparr>,
                 \<lparr>ver_name = ''v1beta1'', served = True, storage = False\<rparr>,
                 \<lparr>ver_name = ''v2'', served = True, storage = False\<rparr>])"
         and sp = "\<lparr>crd_group = ''bitnami.com'', crd_versions = Some
                [\<lparr>ver_name = ''v1old'', served = False, storage = False\<rparr>,
                 \<lparr>ver_name = ''v1beta1'', served = True, storage = False\<rparr>,
                 \<lparr>ver_name = ''v2'', served = True, storage = False\<rparr>]\<rparr>"
         and pre = "[\<lparr>ver_name = ''v1old'', served = False, storage = False\<rparr>]"
         and v = "\<lparr>ver_name = ''v1beta1'', served = True, storage = False\<rparr>"
         and post = "[\<lparr>ver_name = ''v2'', served = True, storage = False\<rparr>]",
       OF c refl ok b]
    by (simp add: initial_state_def)
  have 3: "detectApiVersion (\<lambda>url. Resolved (crd_with [])) initial_state =
     (Ok ''bitnami.com/v1alpha1'', \<lparr>detectedVersion = None, requests = [crd_url]\<rparr>)"
    using detectApiVersion_selection
      [where s = initial_state and fetch = "\<lambda>url. Resolved (crd_with [])"
         and sp = "\<lparr>crd_group = ''bitnami.com'', crd_versions = Some []\<rparr>"
         and vs = "[]",
       OF c refl ok b]
    by (simp add: initial_state_def)
  from 1 2 3 show ?thesis by simp
qed

subsection \<open>The version cache\<close>

lemma group_version_not_empty: "group_version c v \<noteq> Inr []"
  by (auto simp: group_version_def split: option.splits)

lemma detect_query_state:
  "detect_query fetch s = (run, s') \<Longrightarrow>
     requests s' = requests s @ [crd_url] \<and>
     (detectedVersion s' = detectedVersion s \<or>
      (\<exists>gv. run = Inr gv \<and> gv \<noteq> [] \<and> detectedVersion s' = Some gv))"
  by (auto simp: detect_query_def Let_def group_version_not_empty
                 group_version_not_empty [THEN not_sym]
           split: fetch_outcome.splits if_splits sum.splits option.splits)

lemma detectApiVersion_miss:
  assumes "cache_hit s = None" and "detectApiVersion fetch s = (res, s')"
  shows "requests s' = requests s @ [crd_url] \<and>
     (detectedVersion s' = detectedVersion s \<or>
      (\<exists>gv. res = Ok gv \<and> gv \<noteq> [] \<and> detectedVersion s' = Some gv))"
proof -
  obtain run s1 where q: "detect_query fetch s = (run, s1)"
    by (cases "detect_query fetch s")
  from assms q have s': "s' = s1"
    by (auto simp: detectApiVersion_def split: Result.splits)
  from assms q have res: "\<And>gv. run = Inr gv \<Longrightarrow> res = Ok gv"
    by (auto simp: detectApiVersion_def tryCatchAsync_def)
  from detect_query_state [OF q] s' res show ?thesis by auto
qed

lemma detectApiVersion_hit:
  "cache_hit s = Some v \<Longrightarrow> detectApiVersion fetch s = (Ok v, s)"
  by (simp add: detectApiVersion_def)

lemma detectApiVersion_wf: "cache_wf s \<Longrightarrow> cache_wf (snd (detectApiVersion fetch s))"
proof (cases "cache_hit s")
  case None
  assume wf: "cache_wf s"
  obtain res s' where d: "detectApiVersion fetch s = (res, s')"
    by (cases "detectApiVersion fetch s")
  from detectApiVersion_miss [OF None d] wf d show ?thesis
    by (auto simp: cache_wf_def)
next
  case (Some v)
  assume "cache_wf s"
  with detectApiVersion_hit [OF Some] show ?thesis by simp
qed

lemma run_ops_wf: "cache_wf s \<Longrightarrow> cache_wf (run_ops ops s)"
proof (induction ops arbitrary: s)
  case Nil
  then show ?case by simp
next
  case (Cons x ops)
  show ?case
  proof (cases x)
    case (Detect fetch)
    from Cons.IH [OF detectApiVersion_wf [OF Cons.prems]] Detect show ?thesis by simp
  next
    case Clear
    have "cache_wf (clearVersionCache s)"
      by (simp add: clearVersionCache_def cache_wf_def)
    from Cons.IH [OF this] Clear show ?thesis by simp
  qed
qed

lemma reachable_hit:
  "cache_wf s \<Longrightarrow> detectedVersion s = Some v \<Longrightarrow> cache_hit s = Some v"
  by (simp add: cache_wf_def cache_hit_def)

text \<open>
  C6. In every state the resolver can reach from its initial one: when the cache holds
  a version, \<open>detectApiVersion\<close> returns it and leaves the state as it is, request log
  included, so no network call is made; when the cache is empty the call makes exactly
  one request and leaves the cache empty or holding the version it returned;
  \<open>clearVersionCache\<close> empties the cache without a network call, and the next
  \<open>detectApiVersion\<close> makes the request again.
\<close>

theorem version_cache_state_machine:
  assumes "s = run_ops ops initial_state"
  shows
  "(detectedVersion s = Some v \<longrightarrow> detectApiVersion fetch s = (Ok v, s)) \<and>
   (detectedVersion s = None \<longrightarrow>
      requests (snd (detectApiVersion fetch s)) = requests s @ [crd_url] \<and>
      (detectedVersion (snd (detectApiVersion fetch s)) = None \<or>
       (\<exists>v'. fst (detectApiVersion fetch s) = Ok v' \<and>
             detectedVersion (snd (detectApiVersion fetch s)) = Some v'))) \<and>
   detectedVersion (clearVersionCache s) = None \<and>
   requests (clearVersionCache s) = requests s \<and>
   requests (snd (detectApiVersion fetch (clearVersionCache s))) = requests s @ [crd_url]"
proof -
  have wf: "cache_wf s"
    unfolding assms by (rule run_ops_wf) (simp add: cache_wf_def initial_state_def)
  have miss: "\<And>s0. detectedVersion s0 = None \<Longrightarrow>
      requests (snd (detectApiVersion fetch s0)) = requests s0 @ [crd_url] \<and>
      (detectedVersion (snd (detectApiVersion fetch s0)) = None \<or>
       (\<exists>v'. fst (detectApiVersion fetch s0) = Ok v' \<and>
             detectedVersion (snd (detectApiVersion fetch s0)) = Some v'))"
  proof -
    fix s0 :: resolver_state
    assume n: "detectedVersion s0 = None"
    then have c: "cache_hit s0 = None" by (simp add: cache_hit_def)
    obtain res s' where d: "detectApiVersion fetch s0 = (res, s')"
      by (cases "detectApiVersion fetch s0")
    from detectApiVersion_miss [OF c d] n d
    show "requests (snd (detectApiVersion fetch s0)) = requests s0 @ [crd_url] \<and>
      (detectedVersion (snd (detectApiVersion fetch s0)) = None \<or>
       (\<exists>v'. fst (detectApiVersion fetch s0) = Ok v' \<and>
             detectedVersion (snd (detectApiVersion fetch s0)) = Some v'))"
      by auto
  qed
  have hit: "detectedVersion s = Some v \<longrightarrow> detectApiVersion fetch s = (Ok v, s)"
    using wf by (auto dest: reachable_hit detectApiVersion_hit)
  have clr: "detectedVersion (clearVersionCache s) = None"
    "requests (clearVersionCache s) = requests s"
    by (simp_all add: clearVersionCache_def)
  from miss [OF clr(1)] clr(2)
  have again: "requests (snd (detectApiVersion fetch (clearVersionCache s))) =
                 requests s @ [crd_url]"
    by simp
  from hit miss clr again show ?thesis by blast
qed

text \<open>
  After one successful detection the cached version is returned even when the network
  is down, with no request; from the initial state, and again after clearing, the
  request is made.
\<close>

theorem version_cache_state_machine_witness:
  "detectedVersion initial_state = None \<and>
   requests (snd (detectApiVersion serves_v1alpha1 initial_state)) = [crd_url] \<and>
   detectedVersion (run_ops [Detect serves_v1alpha1] initial_state) =
     Some ''bitnami.com/v1alpha1'' \<and>
   requests (run_ops [Detect serves_v1alpha1] initial_state) = [crd_url] \<and>
   detectApiVersion network_down (run_ops [Detect serves_v1alpha1] initial_state) =
     (Ok ''bitnami.com/v1alpha1'', run_ops [Detect serves_v1alpha1] initial_state) \<and>
   detectedVersion (clearVersionCache (run_ops [Detect serves_v1alpha1] initial_state)) = None \<and>
   requests (snd (detectApiVersion network_down
               (clearVersionCache (run_ops [Detect serves_v1alpha1] initial_state)))) =
     [crd_url, crd_url]"
proof -
  have i: "detectedVersion initial_state = None" "requests initial_state = []"
    by (simp_all add: initial_state_def)
  have d: "detectedVersion (run_ops [Detect serves_v1alpha1] initial_state) =
     Some ''bitnami.com/v1alpha1''"
    and r: "requests (run_ops [Detect serves_v1alpha1] initial_state) = [crd_url]"
    by (simp_all add: detectApiVersion_def detect_query_def cache_hit_def initial_state_def
          serves_v1alpha1_def crd_with_def response_ok_def find_version_def
          group_version_def tryCatchAsync_def Let_def)
  from i version_cache_state_machine
      [where ops = "[]" and s = initial_state and fetch = serves_v1alpha1]
  have 1: "requests (snd (detectApiVersion serves_v1alpha1 initial_state)) = [crd_url]"
    by simp
  from d r version_cache_state_machine
      [where ops = "[Detect serves_v1alpha1]"
         and s = "run_ops [Detect serves_v1alpha1] initial_state"
         and fetch = network_down and v = "''bitnami.com/v1alpha1''", OF refl]
  have 2: "detectApiVersion network_down (run_ops [Detect serves_v1alpha1] initial_state) =
       (Ok ''bitnami.com/v1alpha1'', run_ops [Detect serves_v1alpha1] initial_state)"
    and 3: "detectedVersion (clearVersionCache (run_ops [Detect serves_v1alpha1] initial_state))
        = None"
    and 4: "requests (snd (detectApiVersion network_down
               (clearVersionCache (run_ops [Detect serves_v1alpha1] initial_state)))) =
       [crd_url, crd_url]"
    by simp_all
  from i d r 1 2 3 4 show ?thesis by simp
qed

subsection \<open>Certificate fetch with retry\<close>

lemma retry_three:
  "retryWithBackoff operation \<lparr>maxAttempts = 3, initialDelayMs = 1000, maxDelayMs = 10000\<rparr> jitter =
     (case operation 1 of
        Ok v \<Rightarrow> (Ok v, 1, [])
      | Err e1 \<Rightarrow>
          (case operation 2 of
             Ok v \<Rightarrow> (Ok v, 2, [min 10000 (jitter 1 1000)])
           | Err e2 \<Rightarrow>
               (operation 3, 3, [min 10000 (jitter 1 1000), min 10000 (jitter 2 2000)])))"
  by (simp add: retryWithBackoff_def numeral_3_eq_3 numeral_2_eq_2 split: Result.splits)

text \<open>
  C8. \<open>fetchPublicCertificate\<close> is the single attempt wrapped in the retry driver with
  maxAttempts = 3, initialDelayMs = 1000, maxDelayMs = 10000. An attempt fails on every
  non-2xx response and on every rejected fetch or body read, and answers a 2xx response
  with the body as the certificate, unchanged. A failed first or second attempt is
  followed by the next attempt (after a delay of 1000 and then 2000 ms before jitter,
  never above 10000); the first success is the result, and after three failures the
  third failure is.
\<close>

theorem fetchPublicCertificate_retry:
  "fetchPublicCertificate net jitter config =
     retryWithBackoff (\<lambda>k. fetchPublicCertificateOnce (net k) config)
       \<lparr>maxAttempts = 3, initialDelayMs = 1000, maxDelayMs = 10000\<rparr> jitter \<and>
   (fetch (getControllerProxyURL config ''/v1/cert.pem'') = Resolved r \<and> \<not> response_ok r \<longrightarrow>
      fetchPublicCertificateOnce fetch config =
        Err (''Unable to fetch controller certificate: Failed to fetch certificate: '' @
             number_to_string (int (status r)) @ '' '' @ statusText r)) \<and>
   (fetch (getControllerProxyURL config ''/v1/cert.pem'') = Rejected e \<longrightarrow>
      fetchPublicCertificateOnce fetch config =
        Err (''Unable to fetch controller certificate: '' @ err_message e)) \<and>
   (fetch (getControllerProxyURL config ''/v1/cert.pem'') = Resolved r \<and> response_ok r \<and>
    body r = Inl e \<longrightarrow>
      fetchPublicCertificateOnce fetch config =
        Err (''Unable to fetch controller certificate: '' @ err_message e)) \<and>
   (fetch (getControllerProxyURL config ''/v1/cert.pem'') = Resolved r \<and> response_ok r \<and>
    body r = Inr pem \<longrightarrow>
      fetchPublicCertificateOnce fetch config = Ok (PEMCertificate pem)) \<and>
   (fetchPublicCertificateOnce (net 1) config = Ok v \<longrightarrow>
      fetchPublicCertificate net jitter config = (Ok v, 1, [])) \<and>
   (fetchPublicCertificateOnce (net 1) config = Err e1 \<and>
    fetchPublicCertificateOnce (net 2) config = Ok v \<longrightarrow>
      fetchPublicCertificate net jitter config = (Ok v, 2, [min 10000 (jitter 1 1000)])) \<and>
   (fetchPublicCertificateOnce (net 1) config = Err e1 \<and>
    fetchPublicCertificateOnce (net 2) config = Err e2 \<longrightarrow>
      fetchPublicCertificate net jitter config =
        (fetchPublicCertificateOnce (net 3) config, 3,
         [min 10000 (jitter 1 1000), min 10000 (jitter 2 2000)]))"
proof -
  have once: "\<And>fetch. fetchPublicCertificateOnce fetch config =
      (case fetch (getControllerProxyURL config ''/v1/cert.pem'') of
         Rejected e \<Rightarrow> Err (''Unable to fetch controller certificate: '' @ err_message e)
       | Resolved r \<Rightarrow>
           if \<not> response_ok r then
             Err (''Unable to fetch controller certificate: Failed to fetch certificate: '' @
                  number_to_string (int (status r)) @ '' '' @ statusText r)
           else (case body r of
                   Inl e \<Rightarrow> Err (''Unable to fetch controller certificate: '' @ err_message e)
                 | Inr pem \<Rightarrow> Ok (PEMCertificate pem)))"
    by (simp add: fetchPublicCertificateOnce_def tryCatchAsync_def Error_def Let_def
             split: fetch_outcome.splits sum.splits)
  have wiring: "fetchPublicCertificate net jitter config =
     retryWithBackoff (\<lambda>k. fetchPublicCertificateOnce (net k) config)
       \<lparr>maxAttempts = 3, initialDelayMs = 1000, maxDelayMs = 10000\<rparr> jitter"
    by (simp add: fetchPublicCertificate_def)
  have a: "fetch (getControllerProxyURL config ''/v1/cert.pem'') = Resolved r \<and> \<not> response_ok r \<longrightarrow>
      fetchPublicCertificateOnce fetch config =
        Err (''Unable to fetch controller certificate: Failed to fetch certificate: '' @
             number_to_string (int (status r)) @ '' '' @ statusText r)"
    by (simp add: once)
  have b: "fetch (getControllerProxyURL config ''/v1/cert.pem'') = Rejected e \<longrightarrow>
      fetchPublicCertificateOnce fetch config =
        Err (''Unable to fetch controller certificate: '' @ err_message e)"
    by (simp add: once)
  have c: "fetch (getControllerProxyURL config ''/v1/cert.pem'') = Resolved r \<and> response_ok r \<and>
    body r = Inl e \<longrightarrow>
      fetchPublicCertificateOnce fetch config =
        Err (''Unable to fetch controller certificate: '' @ err_message e)"
    by (simp add: once)
  have d: "fetch (getControllerProxyURL config ''/v1/cert.pem'') = Resolved r \<and> response_ok r \<and>
    body r = Inr pem \<longrightarrow>
      fetchPublicCertificateOnce fetch config = Ok (PEMCertificate pem)"
    by (simp add: once)
  have r1: "fetchPublicCertificateOnce (net 1) config = Ok v \<longrightarrow>
      fetchPublicCertificate net jitter config = (Ok v, 1, [])"
    by (simp add: wiring retry_three)
  have r2: "fetchPublicCertificateOnce (net 1) config = Err e1 \<and>
    fetchPublicCertificateOnce (net 2) config = Ok v \<longrightarrow>
      fetchPublicCertificate net jitter config = (Ok v, 2, [min 10000 (jitter 1 1000)])"
    by (simp add: wiring retry_three)
  have r3: "fetchPublicCertificateOnce (net 1) config = Err e1 \<and>
    fetchPublicCertificateOnce (net 2) config = Err e2 \<longrightarrow>
      fetchPublicCertificate net jitter config =
        (fetchPublicCertificateOnce (net 3) config, 3,
         [min 10000 (jitter 1 1000), min 10000 (jitter 2 2000)])"
    by (simp add: wiring retry_three)
  from wiring a b c d r1 r2 r3 show ?thesis by blast
qed

text \<open>
  A 503, then a network error, then the certificate: three attempts, two delays, and
  the body of the third answer as the certificate.
\<close>

theorem fetchPublicCertificate_retry_witness:
  "fetchPublicCertificateOnce (flaky_net 1) default_config =
     Err ''Unable to fetch controller certificate: Failed to fetch certificate: 503 Service Unavailable'' \<and>
   fetchPublicCertificateOnce (flaky_net 2) default_config =
     Err ''Unable to fetch controller certificate: Failed to fetch'' \<and>
   fetchPublicCertificateOnce (flaky_net 3) default_config = Ok (PEMCertificate cert_pem) \<and>
   fetchPublicCertificate flaky_net (\<lambda>k d. d + 250 * k) default_config =
     (Ok (PEMCertificate cert_pem), 3, [1250, 2500])"
proof -
  have r503: "\<not> response_ok cert_503" and r200: "response_ok cert_200"
    by (simp_all add: response_ok_def cert_503_def cert_200_def)
  have 1: "fetchPublicCertificateOnce (flaky_net 1) default_config =
     Err ''Unable to fetch controller certificate: Failed to fetch certificate: 503 Service Unavailable''"
    using r503
      fetchPublicCertificate_retry [where fetch = "flaky_net 1" and config = default_config
        and r = cert_503]
    by (simp add: flaky_net_def cert_503_def number_to_string_def digit_char_def)
  have 2: "fetchPublicCertificateOnce (flaky_net 2) default_config =
     Err ''Unable to fetch controller certificate: Failed to fetch''"
    using fetchPublicCertificate_retry [where fetch = "flaky_net 2" and config = default_config
        and e = failed_to_fetch]
    by (simp add: flaky_net_def failed_to_fetch_def)
  have 3: "fetchPublicCertificateOnce (flaky_net 3) default_config = Ok (PEMCertificate cert_pem)"
    using r200
      fetchPublicCertificate_retry [where fetch = "flaky_net 3" and config = default_config
        and r = cert_200 and pem = cert_pem]
    by (simp add: flaky_net_def cert_200_def)
  have "fetchPublicCertificate flaky_net (\<lambda>k d. d + 250 * k) default_config =
          (fetchPublicCertificateOnce (flaky_net 3) default_config, 3,
           [min 10000 ((\<lambda>k d. d + 250 * k) 1 1000), min 10000 ((\<lambda>k d. d + 250 * k) 2 2000)])"
    using 1 2
      fetchPublicCertificate_retry [where net = flaky_net and config = default_config
        and jitter = "\<lambda>k d. d + 250 * k"
        and ?e1.0 = "''Unable to fetch controller certificate: Failed to fetch certificate: 503 Service Unavailable''"
        and ?e2.0 = "''Unable to fetch controller certificate: Failed to fetch''"]
    by blast
  with 1 2 3 show ?thesis by simp
qed

end
